theory Spec2Isabelle
  imports Main
begin

section \<open>Data model\<close>

text \<open>
  The rendering pipeline of \<^verbatim>\<open>videoService.js\<close> (class \<open>VideoService\<close>) and the
  narration step of \<^verbatim>\<open>ttsService.js\<close> (class \<open>TTSService\<close>).

  JavaScript numbers that the services handle (scene ids, durations) are modelled as
  \<open>int\<close>; loop indices as \<open>nat\<close>. A property that may be \<open>undefined\<close>, \<open>null\<close> or a
  string is a \<open>string option\<close>. A thrown \<open>Error\<close> is the value \<open>Error msg\<close>, and a
  function that may throw (or a promise that may reject) returns \<open>error + 'a\<close>.
\<close>

datatype error = Error string

record scene =
  scene_id :: int
  narration :: string
  duration :: int

record script =
  scenes :: "scene list"
  totalDuration :: int

record image =
  img_sceneId :: int
  img_path :: "string option"

record audio =
  aud_sceneId :: int
  aud_path :: "string option"
  aud_duration :: int
  aud_silent :: "bool option"

text \<open>JavaScript truthiness of a value that is \<open>undefined\<close>/\<open>null\<close> or a string.\<close>

fun truthy :: "string option \<Rightarrow> bool" where
  "truthy None = False"
| "truthy (Some s) = (s \<noteq> [])"

section \<open>Asset resolution\<close>

text \<open>
  \<^verbatim>\<open>images.find(img => img.sceneId === scene.id)\<close> and
  \<^verbatim>\<open>audioFiles.find(aud => aud.sceneId === scene.id)\<close> in \<open>createVideo\<close>.
  \<open>Array.prototype.find\<close> returns the first element that satisfies the predicate, or
  \<open>undefined\<close>; it is \<^const>\<open>find\<close> of HOL's list library.
\<close>

definition findImage :: "image list \<Rightarrow> scene \<Rightarrow> image option" where
  "findImage images scene = find (\<lambda>img. img_sceneId img = scene_id scene) images"

definition findAudio :: "audio list \<Rightarrow> scene \<Rightarrow> audio option" where
  "findAudio audioFiles scene = find (\<lambda>aud. aud_sceneId aud = scene_id scene) audioFiles"

section \<open>Paths and template strings\<close>

text \<open>
  \<open>path.join\<close> on components that are already normalised (no empty component, no
  \<open>..\<close>) joins them with the separator.
\<close>

definition path_join :: "string \<Rightarrow> string \<Rightarrow> string" where
  "path_join dir name = dir @ ''/'' @ name"

text \<open>The decimal text of a number, as a template literal \<^verbatim>\<open>${index}\<close> produces it.\<close>

definition digit_char :: "nat \<Rightarrow> char" where
  "digit_char d = char_of (48 + d)"

function show_nat :: "nat \<Rightarrow> string" where
  "show_nat n = (if n < 10 then [digit_char n] else show_nat (n div 10) @ [digit_char (n mod 10)])"
  by pat_completeness auto
termination
  by (relation "measure id") auto

declare show_nat.simps [simp del]

definition show_int :: "int \<Rightarrow> string" where
  "show_int i = (if i < 0 then ''-'' @ show_nat (nat (- i)) else show_nat (nat i))"

text \<open>\<^verbatim>\<open>parts.join(sep)\<close>.\<close>

fun join :: "string \<Rightarrow> string list \<Rightarrow> string" where
  "join sep [] = []"
| "join sep [x] = x"
| "join sep (x # y # ys) = x @ sep @ join sep (y # ys)"

section \<open>The world outside the service\<close>

text \<open>
  The file system is a map from paths to file contents. Every effect of a run is
  also appended to a trace, so that what a run attempted can be read off afterwards:
  the allocation of the video id (\<open>uuidv4()\<close>), the warning for a skipped scene
  (\<open>console.warn\<close>), each FFmpeg process that was started, \<open>fs.writeFile\<close>,
  \<open>fs.unlink\<close> and \<open>fs.stat\<close>.

  A command of \<open>fluent-ffmpeg\<close> is the list of its inputs, each with its input options,
  its output options and the output path given to \<open>save\<close>.
\<close>

record ffmpeg_cmd =
  cmd_inputs :: "(string \<times> string list) list"
  cmd_outputOptions :: "string list"
  cmd_output :: string

datatype event =
    NewVideoId string
  | SkipWarning int
  | Ffmpeg ffmpeg_cmd
  | WriteFile string string
  | Unlink string
  | Stat string

record world =
  files :: "string \<rightharpoonup> string"
  trace :: "event list"

text \<open>
  The FFmpeg executable is outside the repository: it is a parameter of the model, a
  function from the command and the file system it runs on to either the error of the
  \<open>'error'\<close> event or the contents of the output file it wrote before the \<open>'end'\<close> event.
\<close>

type_synonym ffmpeg = "ffmpeg_cmd \<Rightarrow> (string \<rightharpoonup> string) \<Rightarrow> error + string"

text \<open>
  \<^verbatim>\<open>command.save(path)\<close>: start the process and wait for \<open>'end'\<close> or \<open>'error'\<close>.
  A process that ends with \<open>'error'\<close> is taken to leave the file system as it was.
\<close>

definition save :: "ffmpeg \<Rightarrow> ffmpeg_cmd \<Rightarrow> world \<Rightarrow> (error + unit) \<times> world" where
  "save ff cmd w =
     (case ff cmd (files w) of
        Inl err \<Rightarrow> (Inl err, w\<lparr>trace := trace w @ [Ffmpeg cmd]\<rparr>)
      | Inr content \<Rightarrow>
          (Inr (), w\<lparr>files := (files w)(cmd_output cmd \<mapsto> content),
                      trace := trace w @ [Ffmpeg cmd]\<rparr>))"

text \<open>\<^verbatim>\<open>fs.writeFile(path, content)\<close>; the write itself is taken to succeed.\<close>

definition writeFile :: "string \<Rightarrow> string \<Rightarrow> world \<Rightarrow> world" where
  "writeFile p content w =
     w\<lparr>files := (files w)(p \<mapsto> content), trace := trace w @ [WriteFile p content]\<rparr>"

text \<open>
  \<^verbatim>\<open>fs.unlink(path)\<close> with its rejection swallowed, as both call sites do
  (\<^verbatim>\<open>.catch(() => {})\<close> and \<^verbatim>\<open>try { ... } catch (err) { }\<close>): afterwards the path names
  no file, whether or not it did before.
\<close>

definition unlink :: "string \<Rightarrow> world \<Rightarrow> world" where
  "unlink p w = w\<lparr>files := (files w)(p := None), trace := trace w @ [Unlink p]\<rparr>"

text \<open>\<^verbatim>\<open>fs.stat(path)\<close>: rejects when there is no such file, else yields its size.\<close>

definition stat :: "string \<Rightarrow> world \<Rightarrow> (error + nat) \<times> world" where
  "stat p w =
     (case files w p of
        None \<Rightarrow> (Inl (Error ''ENOENT: no such file or directory''), w\<lparr>trace := trace w @ [Stat p]\<rparr>)
      | Some content \<Rightarrow> (Inr (length content), w\<lparr>trace := trace w @ [Stat p]\<rparr>))"

section \<open>VideoService\<close>

record videoService =
  tempDir :: string
  outputDir :: string

record videoResult =
  res_videoId :: string
  res_path :: string
  res_url :: string
  res_size :: nat
  res_duration :: int

definition segmentPath :: "videoService \<Rightarrow> nat \<Rightarrow> string" where
  "segmentPath svc index =
     path_join (path_join (tempDir svc) ''segments'') (''segment_'' @ show_nat index @ ''.mp4'')"

definition video_filter :: string where
  "video_filter =
     ''scale=1920:1080:force_original_aspect_ratio=decrease,pad=1920:1080:(ow-iw)/2:(oh-ih)/2,setsar=1''"

text \<open>
  The command that \<open>createSegment\<close> builds. \<^verbatim>\<open>audioPath && fsSync.existsSync(audioPath)\<close>
  decides between the branch with a second input and the AAC options and the branch
  that ends with \<^verbatim>\<open>-an\<close>.
\<close>

definition audioAvailable :: "string option \<Rightarrow> (string \<rightharpoonup> string) \<Rightarrow> bool" where
  "audioAvailable audioPath fs = (truthy audioPath \<and> the audioPath \<in> dom fs)"

definition segmentCommand ::
  "videoService \<Rightarrow> scene \<Rightarrow> string \<Rightarrow> string option \<Rightarrow> nat \<Rightarrow> (string \<rightharpoonup> string) \<Rightarrow> ffmpeg_cmd" where
  "segmentCommand svc scene imagePath audioPath index fs =
     (if audioAvailable audioPath fs then
        \<lparr>cmd_inputs = [(imagePath, [''-loop 1'', ''-t '' @ show_int (duration scene)]),
                       (the audioPath, [])],
         cmd_outputOptions =
           [''-c:v libx264'', ''-preset fast'', ''-pix_fmt yuv420p'',
            ''-c:a aac'', ''-b:a 128k'', ''-ar 44100'', ''-shortest'',
            ''-vf'', video_filter],
         cmd_output = segmentPath svc index\<rparr>
      else
        \<lparr>cmd_inputs = [(imagePath, [''-loop 1'', ''-t '' @ show_int (duration scene)])],
         cmd_outputOptions =
           [''-c:v libx264'', ''-preset fast'', ''-pix_fmt yuv420p'',
            ''-vf'', video_filter, ''-an''],
         cmd_output = segmentPath svc index\<rparr>)"

definition createSegment ::
  "videoService \<Rightarrow> ffmpeg \<Rightarrow> scene \<Rightarrow> string \<Rightarrow> string option \<Rightarrow> nat \<Rightarrow> world
     \<Rightarrow> (error + string) \<times> world" where
  "createSegment svc ff scene imagePath audioPath index w =
     (case save ff (segmentCommand svc scene imagePath audioPath index (files w)) w of
        (Inl err, w') \<Rightarrow> (Inl err, w')
      | (Inr _, w') \<Rightarrow> (Inr (segmentPath svc index), w'))"

definition concatFilePath :: "videoService \<Rightarrow> string" where
  "concatFilePath svc = path_join (tempDir svc) ''concat_list.txt''"

text \<open>\<^verbatim>\<open>segments.map(seg => `file '${seg}'`).join('\n')\<close>\<close>

definition concatContent :: "string list \<Rightarrow> string" where
  "concatContent segments =
     join [CHR 0x0A] (map (\<lambda>seg. ''file '' @ [CHR 0x27] @ seg @ [CHR 0x27]) segments)"

definition concatCommand :: "videoService \<Rightarrow> string \<Rightarrow> ffmpeg_cmd" where
  "concatCommand svc outputPath =
     \<lparr>cmd_inputs = [(concatFilePath svc, [''-f concat'', ''-safe 0''])],
      cmd_outputOptions = [''-c copy''],
      cmd_output = outputPath\<rparr>"

definition concatenateSegments ::
  "videoService \<Rightarrow> ffmpeg \<Rightarrow> string list \<Rightarrow> string \<Rightarrow> world \<Rightarrow> (error + unit) \<times> world" where
  "concatenateSegments svc ff segments outputPath w =
     (let w1 = writeFile (concatFilePath svc) (concatContent segments) w in
      case save ff (concatCommand svc outputPath) w1 of
        (Inl err, w2) \<Rightarrow> (Inl err, w2)
      | (Inr _, w2) \<Rightarrow> (Inr (), unlink (concatFilePath svc) w2))"

text \<open>\<open>cleanupSegments\<close>: unlink each segment in turn, ignoring errors.\<close>

fun cleanupSegments :: "string list \<Rightarrow> world \<Rightarrow> world" where
  "cleanupSegments [] w = w"
| "cleanupSegments (segment # rest) w = cleanupSegments rest (unlink segment w)"

text \<open>
  The scene loop of \<open>createVideo\<close>,
  \<^verbatim>\<open>for (let i = 0; i < script.scenes.length; i++)\<close>, started at index \<open>i\<close> on the
  scenes from that index on, with the \<open>segments\<close> array collected so far. A scene
  with \<^verbatim>\<open>!image?.path\<close> is skipped with a warning (\<open>continue\<close>); a rejection of
  \<open>createSegment\<close> leaves the loop.
\<close>

definition imagePathOf :: "image list \<Rightarrow> scene \<Rightarrow> string option" where
  "imagePathOf images scene = Option.bind (findImage images scene) img_path"

definition audioPathOf :: "audio list \<Rightarrow> scene \<Rightarrow> string option" where
  "audioPathOf audioFiles scene = Option.bind (findAudio audioFiles scene) aud_path"

fun sceneLoop ::
  "videoService \<Rightarrow> ffmpeg \<Rightarrow> image list \<Rightarrow> audio list \<Rightarrow> nat \<Rightarrow> scene list \<Rightarrow> string list
     \<Rightarrow> world \<Rightarrow> (error + string list) \<times> world" where
  "sceneLoop svc ff images audioFiles i [] segments w = (Inr segments, w)"
| "sceneLoop svc ff images audioFiles i (scene # rest) segments w =
     (if \<not> truthy (imagePathOf images scene) then
        sceneLoop svc ff images audioFiles (Suc i) rest segments
          (w\<lparr>trace := trace w @ [SkipWarning (scene_id scene)]\<rparr>)
      else
        case createSegment svc ff scene (the (imagePathOf images scene))
               (audioPathOf audioFiles scene) i w of
          (Inl err, w') \<Rightarrow> (Inl err, w')
        | (Inr segment, w') \<Rightarrow>
            sceneLoop svc ff images audioFiles (Suc i) rest (segments @ [segment]) w')"

text \<open>
  \<open>createVideo\<close>. The result of \<open>uuidv4()\<close> is the parameter \<open>videoId\<close>; the call is
  recorded in the trace. The \<open>catch\<close> block logs and rethrows, so every error leaves
  the function unchanged.
\<close>

definition outputPathOf :: "videoService \<Rightarrow> string \<Rightarrow> string" where
  "outputPathOf svc videoId = path_join (outputDir svc) (videoId @ ''.mp4'')"

definition createVideo ::
  "videoService \<Rightarrow> ffmpeg \<Rightarrow> string \<Rightarrow> script \<Rightarrow> image list \<Rightarrow> audio list \<Rightarrow> world
     \<Rightarrow> (error + videoResult) \<times> world" where
  "createVideo svc ff videoId script images audioFiles w =
     (let w0 = w\<lparr>trace := trace w @ [NewVideoId videoId]\<rparr>;
          outputPath = outputPathOf svc videoId
      in case sceneLoop svc ff images audioFiles 0 (scenes script) [] w0 of
           (Inl err, w1) \<Rightarrow> (Inl err, w1)
         | (Inr segments, w1) \<Rightarrow>
             if length segments = 0 then (Inl (Error ''No valid segments created''), w1)
             else
               (case concatenateSegments svc ff segments outputPath w1 of
                  (Inl err, w2) \<Rightarrow> (Inl err, w2)
                | (Inr _, w2) \<Rightarrow>
                    (case stat outputPath w2 of
                       (Inl err, w3) \<Rightarrow> (Inl err, w3)
                     | (Inr stats_size, w3) \<Rightarrow>
                         (Inr \<lparr>res_videoId = videoId,
                               res_path = outputPath,
                               res_url = ''/api/videos/stream/'' @ videoId,
                               res_size = stats_size,
                               res_duration = totalDuration script\<rparr>,
                          cleanupSegments segments w3))))"

section \<open>TTSService\<close>









section \<open>Notions used to state the properties\<close>

text \<open>The scene has a resolvable image: the negation of the skip test \<^verbatim>\<open>!image?.path\<close>.\<close>

definition hasImage :: "image list \<Rightarrow> scene \<Rightarrow> bool" where
  "hasImage images scene = truthy (imagePathOf images scene)"

text \<open>
  The segment paths of the scenes with a resolvable image, by ascending position in
  the script.
\<close>

definition orderedSegments :: "videoService \<Rightarrow> image list \<Rightarrow> scene list \<Rightarrow> string list" where
  "orderedSegments svc images scs =
     map (segmentPath svc) (filter (\<lambda>j. hasImage images (scs ! j)) [0..<length scs])"

text \<open>
  The sum of the durations of the scenes that are not skipped: in the words of the
  specification, the duration of the scenes that produced a segment.
\<close>

definition renderedDuration :: "image list \<Rightarrow> script \<Rightarrow> int" where
  "renderedDuration images script =
     sum_list (map duration (filter (hasImage images) (scenes script)))"

text \<open>\<^verbatim>\<open>-an\<close> among the output options makes FFmpeg write no audio stream.\<close>

definition audioDisabled :: "ffmpeg_cmd \<Rightarrow> bool" where
  "audioDisabled cmd = (''-an'' \<in> set (cmd_outputOptions cmd))"

text \<open>The paths that the events of a trace write to.\<close>

fun writtenPaths :: "event list \<Rightarrow> string list" where
  "writtenPaths [] = []"
| "writtenPaths (Ffmpeg cmd # evs) = cmd_output cmd # writtenPaths evs"
| "writtenPaths (WriteFile p c # evs) = p # writtenPaths evs"
| "writtenPaths (ev # evs) = writtenPaths evs"

text \<open>Some worlds and external tools to run the model on.\<close>

definition svc0 :: videoService where
  "svc0 = \<lparr>tempDir = ''/app/temp'', outputDir = ''/app/output/videos''\<rparr>"

definition emptyWorld :: world where
  "emptyWorld = \<lparr>files = Map.empty, trace = []\<rparr>"

text \<open>A world with a file left at the path of the second segment.\<close>

definition staleWorld :: world where
  "staleWorld = \<lparr>files = [''/app/temp/segments/segment_1.mp4'' \<mapsto> ''stale''], trace = []\<rparr>"

definition ffmpegOk :: ffmpeg where
  "ffmpegOk cmd fs = Inr ''mp4''"

text \<open>An FFmpeg that fails on the command with the given output path and on no other.\<close>

definition ffmpegFailsAt :: "string \<Rightarrow> ffmpeg" where
  "ffmpegFailsAt p cmd fs =
     (if cmd_output cmd = p then Inl (Error ''ffmpeg exited with code 1'') else Inr ''mp4'')"

definition mkScene :: "int \<Rightarrow> int \<Rightarrow> scene" where
  "mkScene i d = \<lparr>scene_id = i, narration = ''text'', duration = d\<rparr>"

definition mkImage :: "int \<Rightarrow> image" where
  "mkImage i = \<lparr>img_sceneId = i, img_path = Some (''/app/temp/images/scene_'' @ show_int i @ ''.png'')\<rparr>"

definition mkAudio :: "int \<Rightarrow> audio" where
  "mkAudio i = \<lparr>aud_sceneId = i, aud_path = Some (''/app/temp/audio/scene_'' @ show_int i @ ''.mp3''),
                aud_duration = 30, aud_silent = None\<rparr>"

definition script1 :: script where
  "script1 = \<lparr>scenes = [mkScene 1 30], totalDuration = 30\<rparr>"

definition script2 :: script where
  "script2 = \<lparr>scenes = [mkScene 1 30, mkScene 2 45], totalDuration = 75\<rparr>"

definition script3 :: script where
  "script3 = \<lparr>scenes = [mkScene 1 30, mkScene 2 45, mkScene 3 30], totalDuration = 105\<rparr>"




section \<open>Lemmas about the model\<close>

lemma createSegment_Inl:
  "ff (segmentCommand svc scene ip ap i (files w)) (files w) = Inl e \<Longrightarrow>
   createSegment svc ff scene ip ap i w =
     (Inl e, w\<lparr>trace := trace w @ [Ffmpeg (segmentCommand svc scene ip ap i (files w))]\<rparr>)"
  by (simp add: createSegment_def save_def)

lemma createSegment_Inr:
  "ff (segmentCommand svc scene ip ap i (files w)) (files w) = Inr c \<Longrightarrow>
   createSegment svc ff scene ip ap i w =
     (Inr (segmentPath svc i),
      w\<lparr>files := (files w)(cmd_output (segmentCommand svc scene ip ap i (files w)) \<mapsto> c),
        trace := trace w @ [Ffmpeg (segmentCommand svc scene ip ap i (files w))]\<rparr>)"
  by (simp add: createSegment_def save_def)

lemma createSegment_result:
  assumes "createSegment svc ff scene ip ap i w = (r, w')"
  shows "(r = Inr (segmentPath svc i) \<or> (\<exists>e. r = Inl e)) \<and>
     trace w' = trace w @ [Ffmpeg (segmentCommand svc scene ip ap i (files w))]"
proof (cases "ff (segmentCommand svc scene ip ap i (files w)) (files w)")
  case (Inl e)
  have "createSegment svc ff scene ip ap i w =
     (Inl e, w\<lparr>trace := trace w @ [Ffmpeg (segmentCommand svc scene ip ap i (files w))]\<rparr>)"
    using Inl by (rule createSegment_Inl)
  with assms have "r = Inl e"
    and "w' = w\<lparr>trace := trace w @ [Ffmpeg (segmentCommand svc scene ip ap i (files w))]\<rparr>"
    by simp_all
  then show ?thesis by simp
next
  case (Inr c)
  have "createSegment svc ff scene ip ap i w =
     (Inr (segmentPath svc i),
      w\<lparr>files := (files w)(cmd_output (segmentCommand svc scene ip ap i (files w)) \<mapsto> c),
        trace := trace w @ [Ffmpeg (segmentCommand svc scene ip ap i (files w))]\<rparr>)"
    using Inr by (rule createSegment_Inr)
  with assms have "r = Inr (segmentPath svc i)"
    and "w' = w\<lparr>files := (files w)(cmd_output (segmentCommand svc scene ip ap i (files w)) \<mapsto> c),
        trace := trace w @ [Ffmpeg (segmentCommand svc scene ip ap i (files w))]\<rparr>"
    by simp_all
  then show ?thesis by simp
qed

lemma enumerate_filter_nth:
  "map fst (filter (\<lambda>p. P (snd p)) (List.enumerate 0 xs)) = filter (\<lambda>j. P (xs ! j)) [0..<length xs]"
proof -
  have "zip [0..<length xs] xs = zip [0..<length xs] (map (\<lambda>j. xs ! j) [0..<length xs])"
    by (simp only: map_nth)
  also have "\<dots> = map (\<lambda>j. (j, xs ! j)) [0..<length xs]"
    by (simp add: zip_map2 zip_same_conv_map)
  finally have "List.enumerate 0 xs = map (\<lambda>j. (j, xs ! j)) [0..<length xs]"
    by (simp add: enumerate_eq_zip)
  then show ?thesis
    by (simp add: filter_map comp_def)
qed

lemma sceneLoop_segments:
  "sceneLoop svc ff images audioFiles i scs segs w = (Inr out, w') \<Longrightarrow>
   out = segs @ map (\<lambda>p. segmentPath svc (fst p))
                  (filter (\<lambda>p. hasImage images (snd p)) (List.enumerate i scs))"
proof (induction scs arbitrary: i segs w)
  case Nil
  then show ?case by simp
next
  case (Cons scene rest)
  show ?case
  proof (cases "hasImage images scene")
    case False
    with Cons.prems have "sceneLoop svc ff images audioFiles (Suc i) rest segs
          (w\<lparr>trace := trace w @ [SkipWarning (scene_id scene)]\<rparr>) = (Inr out, w')"
      by (simp add: hasImage_def)
    from Cons.IH [OF this] False show ?thesis
      by simp
  next
    case True
    obtain r w1 where cs: "createSegment svc ff scene (the (imagePathOf images scene))
               (audioPathOf audioFiles scene) i w = (r, w1)"
      by (cases "createSegment svc ff scene (the (imagePathOf images scene))
               (audioPathOf audioFiles scene) i w") 
    from createSegment_result [OF cs] have "r = Inr (segmentPath svc i) \<or> (\<exists>e. r = Inl e)" by simp
    with Cons.prems True cs have r: "r = Inr (segmentPath svc i)"
      and "sceneLoop svc ff images audioFiles (Suc i) rest (segs @ [segmentPath svc i]) w1 = (Inr out, w')"
      by (auto simp: hasImage_def)
    from Cons.IH [OF this(2)] True show ?thesis
      by simp
  qed
qed

lemma sceneLoop_ordered:
  assumes "sceneLoop svc ff images audioFiles 0 scs [] w = (Inr out, w')"
  shows "out = orderedSegments svc images scs"
proof -
  from sceneLoop_segments [OF assms]
  have "out = map (segmentPath svc) (map fst (filter (\<lambda>p. hasImage images (snd p)) (List.enumerate 0 scs)))"
    by (simp add: comp_def)
  then show ?thesis
    by (simp only: enumerate_filter_nth orderedSegments_def)
qed


lemma segmentCommand_output [simp]:
  "cmd_output (segmentCommand svc scene ip ap i fs) = segmentPath svc i"
  by (simp add: segmentCommand_def)

lemma segmentCommand_not_copy:
  "cmd_outputOptions (segmentCommand svc scene ip ap i fs) \<noteq> [''-c copy'']"
  by (simp add: segmentCommand_def)

lemma createSegment_files:
  assumes "createSegment svc ff scene ip ap i w = (r, w')"
  shows "p \<noteq> segmentPath svc i \<Longrightarrow> files w' p = files w p"
proof (cases "ff (segmentCommand svc scene ip ap i (files w)) (files w)")
  case (Inl e)
  from createSegment_Inl [of ff, OF this] assms show "files w' p = files w p" by auto
next
  case (Inr c)
  assume "p \<noteq> segmentPath svc i"
  with createSegment_Inr [of ff, OF Inr] assms show "files w' p = files w p" by auto
qed

lemma sceneLoop_append:
  "sceneLoop svc ff images audioFiles i (pre @ post) segs w =
     (case sceneLoop svc ff images audioFiles i pre segs w of
        (Inl err, w') \<Rightarrow> (Inl err, w')
      | (Inr segs', w') \<Rightarrow> sceneLoop svc ff images audioFiles (i + length pre) post segs' w')"
proof (induction pre arbitrary: i segs w)
  case Nil
  then show ?case by simp
next
  case (Cons scene rest)
  show ?case
  proof (cases "truthy (imagePathOf images scene)")
    case False
    then show ?thesis using Cons.IH
      by (simp split: prod.splits sum.splits)
  next
    case True
    then show ?thesis using Cons.IH
      by (simp split: prod.splits sum.splits)
  qed
qed

lemma sceneLoop_trace:
  "sceneLoop svc ff images audioFiles i scs segs w = (r, w') \<Longrightarrow> ev \<in> set (trace w') \<Longrightarrow>
     ev \<in> set (trace w) \<or> (\<exists>x. ev = SkipWarning x) \<or>
     (\<exists>cmd. ev = Ffmpeg cmd \<and> cmd_output cmd \<in> segmentPath svc ` {i..<i + length scs}
            \<and> cmd_outputOptions cmd \<noteq> [''-c copy''])"
proof (induction scs arbitrary: i segs w)
  case Nil
  then show ?case by simp
next
  case (Cons scene rest)
  have sub: "segmentPath svc ` {Suc i..<Suc i + length rest} \<subseteq> segmentPath svc ` {i..<i + length (scene # rest)}"
    by auto
  have here: "segmentPath svc i \<in> segmentPath svc ` {i..<i + length (scene # rest)}"
    by auto
  show ?case
  proof (cases "truthy (imagePathOf images scene)")
    case False
    with Cons.prems have "sceneLoop svc ff images audioFiles (Suc i) rest segs
          (w\<lparr>trace := trace w @ [SkipWarning (scene_id scene)]\<rparr>) = (r, w')"
      by simp
    from Cons.IH [OF this Cons.prems(2)] sub show ?thesis
      by auto
  next
    case True
    obtain r1 w1 where cs: "createSegment svc ff scene (the (imagePathOf images scene))
               (audioPathOf audioFiles scene) i w = (r1, w1)"
      by (cases "createSegment svc ff scene (the (imagePathOf images scene))
               (audioPathOf audioFiles scene) i w")
    note res = createSegment_result [OF cs]
    from res have tr: "trace w1 = trace w @ [Ffmpeg (segmentCommand svc scene (the (imagePathOf images scene))
               (audioPathOf audioFiles scene) i (files w))]" by simp
    from res consider (ok) "r1 = Inr (segmentPath svc i)" | (err) e where "r1 = Inl e" by auto
    then show ?thesis
    proof cases
      case ok
      with Cons.prems True cs
      have "sceneLoop svc ff images audioFiles (Suc i) rest (segs @ [segmentPath svc i]) w1 = (r, w')"
        by simp
      from Cons.IH [OF this Cons.prems(2)] sub here tr show ?thesis
        using segmentCommand_not_copy by auto
    next
      case err
      with Cons.prems True cs have "w' = w1" by simp
      with Cons.prems(2) tr here show ?thesis
        using segmentCommand_not_copy by auto
    qed
  qed
qed

lemma cleanupSegments_files:
  "files (cleanupSegments segs w) p = (if p \<in> set segs then None else files w p)"
  by (induction segs arbitrary: w) (auto simp: unlink_def)

lemma cleanupSegments_trace:
  "trace (cleanupSegments segs w) = trace w @ map Unlink segs"
  by (induction segs arbitrary: w) (auto simp: unlink_def)

lemma sceneLoop_skip_all:
  "\<forall>s\<in>set scs. \<not> hasImage images s \<Longrightarrow>
   sceneLoop svc ff images audioFiles i scs segs w =
     (Inr segs, w\<lparr>trace := trace w @ map (\<lambda>s. SkipWarning (scene_id s)) scs\<rparr>)"
  by (induction scs arbitrary: i w) (simp_all add: hasImage_def)


lemma concatenateSegments_Inl:
  "ff (concatCommand svc out) ((files w)(concatFilePath svc \<mapsto> concatContent segs)) = Inl e \<Longrightarrow>
   concatenateSegments svc ff segs out w =
     (Inl e, w\<lparr>files := (files w)(concatFilePath svc \<mapsto> concatContent segs),
               trace := trace w @ [WriteFile (concatFilePath svc) (concatContent segs),
                                   Ffmpeg (concatCommand svc out)]\<rparr>)"
  by (simp add: concatenateSegments_def writeFile_def save_def)

lemma concatenateSegments_Inr:
  "ff (concatCommand svc out) ((files w)(concatFilePath svc \<mapsto> concatContent segs)) = Inr c \<Longrightarrow>
   concatenateSegments svc ff segs out w =
     (Inr (), w\<lparr>files := ((files w)(concatFilePath svc \<mapsto> concatContent segs, out \<mapsto> c))
                            (concatFilePath svc := None),
               trace := trace w @ [WriteFile (concatFilePath svc) (concatContent segs),
                                   Ffmpeg (concatCommand svc out), Unlink (concatFilePath svc)]\<rparr>)"
  by (simp add: concatenateSegments_def writeFile_def save_def unlink_def concatCommand_def)

text \<open>The five ways through createVideo.\<close>

lemma createVideo_cases:
  fixes svc ff videoId script images audioFiles w
  defines "w0 \<equiv> w\<lparr>trace := trace w @ [NewVideoId videoId]\<rparr>"
    and "out \<equiv> outputPathOf svc videoId"
    and "segs \<equiv> orderedSegments svc images (scenes script)"
    and "man \<equiv> concatFilePath svc"
  obtains
    (encode_failed) err w1 where
      "sceneLoop svc ff images audioFiles 0 (scenes script) [] w0 = (Inl err, w1)"
      "createVideo svc ff videoId script images audioFiles w = (Inl err, w1)"
  | (no_segments) w1 where
      "sceneLoop svc ff images audioFiles 0 (scenes script) [] w0 = (Inr segs, w1)"
      "segs = []"
      "createVideo svc ff videoId script images audioFiles w =
         (Inl (Error ''No valid segments created''), w1)"
  | (concat_failed) w1 err where
      "sceneLoop svc ff images audioFiles 0 (scenes script) [] w0 = (Inr segs, w1)"
      "segs \<noteq> []"
      "createVideo svc ff videoId script images audioFiles w =
         (Inl err, w1\<lparr>files := (files w1)(man \<mapsto> concatContent segs),
               trace := trace w1 @ [WriteFile man (concatContent segs),
                                    Ffmpeg (concatCommand svc out)]\<rparr>)"
  | (stat_failed) w1 c err where
      "sceneLoop svc ff images audioFiles 0 (scenes script) [] w0 = (Inr segs, w1)"
      "segs \<noteq> []"
      "createVideo svc ff videoId script images audioFiles w =
         (Inl err, w1\<lparr>files := ((files w1)(man \<mapsto> concatContent segs, out \<mapsto> c))(man := None),
               trace := trace w1 @ [WriteFile man (concatContent segs),
                                    Ffmpeg (concatCommand svc out), Unlink man, Stat out]\<rparr>)"
  | (success) w1 c sz where
      "sceneLoop svc ff images audioFiles 0 (scenes script) [] w0 = (Inr segs, w1)"
      "segs \<noteq> []"
      "out \<noteq> man"
      "createVideo svc ff videoId script images audioFiles w =
         (Inr \<lparr>res_videoId = videoId, res_path = out,
               res_url = ''/api/videos/stream/'' @ videoId,
               res_size = sz, res_duration = totalDuration script\<rparr>,
          cleanupSegments segs
            (w1\<lparr>files := ((files w1)(man \<mapsto> concatContent segs, out \<mapsto> c))(man := None),
               trace := trace w1 @ [WriteFile man (concatContent segs),
                                    Ffmpeg (concatCommand svc out), Unlink man, Stat out]\<rparr>))"
proof -
  obtain r1 w1 where loop: "sceneLoop svc ff images audioFiles 0 (scenes script) [] w0 = (r1, w1)"
    by (cases "sceneLoop svc ff images audioFiles 0 (scenes script) [] w0")
  show thesis
  proof (cases r1)
    case (Inl err)
    with loop have "createVideo svc ff videoId script images audioFiles w = (Inl err, w1)"
      by (simp add: createVideo_def w0_def)
    with loop Inl show thesis by (auto intro: encode_failed)
  next
    case (Inr ss)
    with loop have ss: "ss = segs"
      unfolding segs_def by (auto dest: sceneLoop_ordered)
    with loop Inr have loop': "sceneLoop svc ff images audioFiles 0 (scenes script) [] w0 = (Inr segs, w1)"
      by simp
    show thesis
    proof (cases "segs = []")
      case True
      with loop' have "createVideo svc ff videoId script images audioFiles w =
         (Inl (Error ''No valid segments created''), w1)"
        by (simp add: createVideo_def w0_def)
      with loop' True show thesis by (auto intro: no_segments)
    next
      case False
      show thesis
      proof (cases "ff (concatCommand svc out) ((files w1)(man \<mapsto> concatContent segs))")
        case (Inl err)
        from concatenateSegments_Inl [of ff svc out w1 segs err] Inl loop' False
        have "createVideo svc ff videoId script images audioFiles w =
         (Inl err, w1\<lparr>files := (files w1)(man \<mapsto> concatContent segs),
               trace := trace w1 @ [WriteFile man (concatContent segs),
                                    Ffmpeg (concatCommand svc out)]\<rparr>)"
          by (simp add: createVideo_def w0_def out_def man_def)
        with loop' False show thesis by (auto intro: concat_failed)
      next
        case (Inr c)
        note cc = concatenateSegments_Inr [of ff svc out w1 segs c]
        show thesis
        proof (cases "(((files w1)(man \<mapsto> concatContent segs, out \<mapsto> c))(man := None)) out")
          case None
          with cc Inr loop' False
          have "createVideo svc ff videoId script images audioFiles w =
         (Inl (Error ''ENOENT: no such file or directory''),
            w1\<lparr>files := ((files w1)(man \<mapsto> concatContent segs, out \<mapsto> c))(man := None),
               trace := trace w1 @ [WriteFile man (concatContent segs),
                                    Ffmpeg (concatCommand svc out), Unlink man, Stat out]\<rparr>)"
            by (simp add: createVideo_def w0_def out_def man_def stat_def Let_def)
          with loop' False show thesis by (auto intro: stat_failed)
        next
          case (Some content)
          from Some cc Inr loop' False
          have "createVideo svc ff videoId script images audioFiles w =
         (Inr \<lparr>res_videoId = videoId, res_path = out,
               res_url = ''/api/videos/stream/'' @ videoId,
               res_size = length content, res_duration = totalDuration script\<rparr>,
          cleanupSegments segs
            (w1\<lparr>files := ((files w1)(man \<mapsto> concatContent segs, out \<mapsto> c))(man := None),
               trace := trace w1 @ [WriteFile man (concatContent segs),
                                    Ffmpeg (concatCommand svc out), Unlink man, Stat out]\<rparr>))"
            by (simp add: createVideo_def w0_def out_def man_def stat_def Let_def)
          moreover from Some have "out \<noteq> man" by (auto split: if_splits)
          ultimately show thesis using loop' False by (auto intro: success)
        qed
      qed
    qed
  qed
qed



lemma writtenPaths_set:
  "p \<in> set (writtenPaths evs) \<longleftrightarrow>
     (\<exists>cmd. Ffmpeg cmd \<in> set evs \<and> cmd_output cmd = p) \<or> (\<exists>c. WriteFile p c \<in> set evs)"
  by (induction evs rule: writtenPaths.induct) auto

lemma createVideo_trace:
  assumes "ev \<in> set (trace (snd (createVideo svc ff videoId script images audioFiles w)))"
  shows "ev \<in> set (trace w) \<or> ev = NewVideoId videoId \<or> (\<exists>x. ev = SkipWarning x) \<or>
     (\<exists>cmd. ev = Ffmpeg cmd \<and> cmd_output cmd \<in> segmentPath svc ` {0..<length (scenes script)}
            \<and> cmd_outputOptions cmd \<noteq> [''-c copy'']) \<or>
     (orderedSegments svc images (scenes script) \<noteq> [] \<and>
      fst (sceneLoop svc ff images audioFiles 0 (scenes script) []
             (w\<lparr>trace := trace w @ [NewVideoId videoId]\<rparr>)) =
        Inr (orderedSegments svc images (scenes script)) \<and>
      (ev = WriteFile (concatFilePath svc) (concatContent (orderedSegments svc images (scenes script))) \<or>
       ev = Ffmpeg (concatCommand svc (outputPathOf svc videoId)) \<or>
       ev = Unlink (concatFilePath svc) \<or> ev = Stat (outputPathOf svc videoId) \<or>
       (\<exists>p\<in>set (orderedSegments svc images (scenes script)). ev = Unlink p)))"
proof -
  let ?w0 = "w\<lparr>trace := trace w @ [NewVideoId videoId]\<rparr>"
  have loop_ev: "\<And>r w1 e. sceneLoop svc ff images audioFiles 0 (scenes script) [] ?w0 = (r, w1) \<Longrightarrow>
      e \<in> set (trace w1) \<Longrightarrow>
      e \<in> set (trace w) \<or> e = NewVideoId videoId \<or> (\<exists>x. e = SkipWarning x) \<or>
      (\<exists>cmd. e = Ffmpeg cmd \<and> cmd_output cmd \<in> segmentPath svc ` {0..<length (scenes script)}
            \<and> cmd_outputOptions cmd \<noteq> [''-c copy''])"
    by (drule sceneLoop_trace) auto
  show ?thesis
  proof (cases rule: createVideo_cases [where svc=svc and ff=ff and videoId=videoId
       and script=script and images=images and audioFiles=audioFiles and w=w])
    case (encode_failed err w1)
    with assms loop_ev [OF encode_failed(1), of ev] show ?thesis by simp
  next
    case (no_segments w1)
    with assms loop_ev [OF no_segments(1), of ev] show ?thesis by simp
  next
    case (concat_failed w1 err)
    with assms loop_ev [OF concat_failed(1), of ev] show ?thesis by auto
  next
    case (stat_failed w1 c err)
    with assms loop_ev [OF stat_failed(1), of ev] show ?thesis by auto
  next
    case (success w1 c sz)
    with assms loop_ev [OF success(1), of ev] show ?thesis
      by (auto simp: cleanupSegments_trace)
  qed
qed

lemma show_nat_Suc0: "show_nat (Suc 0) = ''1''"
  by code_simp

lemma sceneLoop_acc_subset:
  "sceneLoop svc ff images audioFiles i scs segs w = (Inr out, w') \<Longrightarrow> set segs \<subseteq> set out"
  by (drule sceneLoop_segments) simp

lemma sceneLoop_files_segments:
  "sceneLoop svc ff images audioFiles i scs segs w = (Inr out, w') \<Longrightarrow>
   p \<notin> set out \<Longrightarrow> files w' p = files w p"
proof (induction scs arbitrary: i segs w)
  case Nil
  then show ?case by simp
next
  case (Cons scene rest)
  show ?case
  proof (cases "truthy (imagePathOf images scene)")
    case False
    with Cons.prems have "sceneLoop svc ff images audioFiles (Suc i) rest segs
          (w\<lparr>trace := trace w @ [SkipWarning (scene_id scene)]\<rparr>) = (Inr out, w')"
      by simp
    from Cons.IH [OF this Cons.prems(2)] show ?thesis by simp
  next
    case True
    obtain r1 w1 where cs: "createSegment svc ff scene (the (imagePathOf images scene))
               (audioPathOf audioFiles scene) i w = (r1, w1)"
      by (cases "createSegment svc ff scene (the (imagePathOf images scene))
               (audioPathOf audioFiles scene) i w")
    from createSegment_result [OF cs]
    consider (ok) "r1 = Inr (segmentPath svc i)" | (err) e where "r1 = Inl e" by auto
    then show ?thesis
    proof cases
      case ok
      with Cons.prems True cs
      have rest: "sceneLoop svc ff images audioFiles (Suc i) rest (segs @ [segmentPath svc i]) w1 = (Inr out, w')"
        by simp
      from sceneLoop_acc_subset [OF rest] Cons.prems(2) have "p \<noteq> segmentPath svc i"
        by auto
      from createSegment_files [OF cs this] Cons.IH [OF rest Cons.prems(2)] show ?thesis
        by simp
    next
      case err
      with Cons.prems True cs show ?thesis by simp
    qed
  qed
qed





lemma join_concat:
  "join sep (x # ys) = x @ concat (map (\<lambda>y. sep @ y) ys)"
  by (induction ys arbitrary: x) simp_all

lemma concatContent_explicit:
  "concatContent segs =
     (case segs of [] \<Rightarrow> []
      | s # rest \<Rightarrow> (''file '' @ [CHR 0x27] @ s @ [CHR 0x27]) @
          concat (map (\<lambda>t. [CHR 0x0A] @ ''file '' @ [CHR 0x27] @ t @ [CHR 0x27]) rest))"
  by (cases segs) (simp_all add: concatContent_def join_concat comp_def)




section \<open>The claims\<close>

text \<open>
  Claim C1, as the code has it. The duration in the result of \<open>createVideo\<close> is the
  \<open>totalDuration\<close> field of the script, whichever scenes were skipped. It is the sum of
  the durations of the rendered scenes when no scene is skipped and the script's
  \<open>totalDuration\<close> is the sum of its scenes' durations.
\<close>

theorem reported_duration_is_script_total:
  assumes "fst (createVideo svc ff videoId script images audioFiles w) = Inr res"
  shows "res_duration res = totalDuration script \<and>
     ((\<forall>s\<in>set (scenes script). hasImage images s) \<and>
      totalDuration script = sum_list (map duration (scenes script))
        \<longrightarrow> res_duration res = renderedDuration images script)"
proof -
  have "res_duration res = totalDuration script"
    using assms by (cases rule: createVideo_cases [where svc=svc and ff=ff and videoId=videoId and script=script and images=images and audioFiles=audioFiles and w=w]) auto
  moreover have "(\<forall>s\<in>set (scenes script). hasImage images s) \<Longrightarrow>
      filter (hasImage images) (scenes script) = scenes script"
    by (simp add: filter_id_conv)
  ultimately show ?thesis
    by (simp add: renderedDuration_def)
qed

theorem reported_duration_is_script_total_witness:
  "fst (createVideo svc0 ffmpegOk ''vid'' script2 [mkImage 1, mkImage 2] [] emptyWorld) =
     Inr \<lparr>res_videoId = ''vid'', res_path = ''/app/output/videos/vid.mp4'',
          res_url = ''/api/videos/stream/vid'', res_size = 3, res_duration = 75\<rparr> \<and>
   (75::int) = totalDuration script2 \<and> (75::int) = renderedDuration [mkImage 1, mkImage 2] script2"
proof -
  let ?res = "\<lparr>res_videoId = ''vid'', res_path = ''/app/output/videos/vid.mp4'',
          res_url = ''/api/videos/stream/vid'', res_size = 3, res_duration = 75\<rparr>"
  have h: "fst (createVideo svc0 ffmpegOk ''vid'' script2 [mkImage 1, mkImage 2] [] emptyWorld) = Inr ?res"
    by code_simp
  have a: "(\<forall>s\<in>set (scenes script2). hasImage [mkImage 1, mkImage 2] s) \<and>
      totalDuration script2 = sum_list (map duration (scenes script2))"
    by code_simp
  from reported_duration_is_script_total [OF h] a h show ?thesis by simp
qed

text \<open>
  Claim C1 as stated fails: of two scenes of 30 and 45 seconds the second has no image
  and is skipped, the one rendered scene lasts 30 seconds, the reported duration is 75.
\<close>

theorem reported_duration_counterexample:
  "fst (createVideo svc0 ffmpegOk ''vid'' script2 [mkImage 1] [] emptyWorld) =
     Inr \<lparr>res_videoId = ''vid'', res_path = ''/app/output/videos/vid.mp4'',
          res_url = ''/api/videos/stream/vid'', res_size = 3, res_duration = 75\<rparr> \<and>
   renderedDuration [mkImage 1] script2 = 30"
  by code_simp

text \<open>
  Claim C2, as the code has it. A scene without a resolvable image is skipped; a scene
  whose image is resolvable and whose encoding fails is not. When the scenes before it
  were skipped or encoded and FFmpeg fails on its segment, \<open>createSegment\<close> rejects,
  the loop is left and \<open>createVideo\<close> fails with the encoder's error. The failed FFmpeg
  run is the last effect of the run: no later scene is processed, nothing is
  concatenated and nothing is cleaned up.
\<close>

theorem encoding_failure_aborts:
  fixes svc ff videoId script images audioFiles w pre scene
  defines "w1 \<equiv> snd (sceneLoop svc ff images audioFiles 0 pre []
                         (w\<lparr>trace := trace w @ [NewVideoId videoId]\<rparr>))"
  defines "cmd \<equiv> segmentCommand svc scene (the (imagePathOf images scene))
                   (audioPathOf audioFiles scene) (length pre) (files w1)"
  assumes "scenes script = pre @ scene # post"
    and "fst (sceneLoop svc ff images audioFiles 0 pre []
                (w\<lparr>trace := trace w @ [NewVideoId videoId]\<rparr>)) = Inr segs"
    and "hasImage images scene"
    and "ff cmd (files w1) = Inl err"
  shows "createVideo svc ff videoId script images audioFiles w =
           (Inl err, w1\<lparr>trace := trace w1 @ [Ffmpeg cmd]\<rparr>)"
proof -
  let ?w0 = "w\<lparr>trace := trace w @ [NewVideoId videoId]\<rparr>"
  have pre: "sceneLoop svc ff images audioFiles 0 pre [] ?w0 = (Inr segs, w1)"
    using assms(4) unfolding w1_def
    by (cases "sceneLoop svc ff images audioFiles 0 pre [] ?w0") auto
  from assms(6) have cs: "createSegment svc ff scene (the (imagePathOf images scene))
      (audioPathOf audioFiles scene) (length pre) w1 = (Inl err, w1\<lparr>trace := trace w1 @ [Ffmpeg cmd]\<rparr>)"
    unfolding cmd_def by (rule createSegment_Inl)
  have "sceneLoop svc ff images audioFiles 0 (scenes script) [] ?w0 =
      sceneLoop svc ff images audioFiles (length pre) (scene # post) segs w1"
    using pre by (simp add: assms(3) sceneLoop_append)
  also have "\<dots> = (Inl err, w1\<lparr>trace := trace w1 @ [Ffmpeg cmd]\<rparr>)"
    using assms(5) cs by (simp add: hasImage_def)
  finally show ?thesis
    by (simp add: createVideo_def)
qed

theorem encoding_failure_aborts_witness:
  "scenes script2 = [mkScene 1 30] @ mkScene 2 45 # [] \<and>
   hasImage [mkImage 1, mkImage 2] (mkScene 2 45) \<and>
   fst (createVideo svc0 (ffmpegFailsAt ''/app/temp/segments/segment_1.mp4'') ''vid'' script2
          [mkImage 1, mkImage 2] [] emptyWorld) = Inl (Error ''ffmpeg exited with code 1'')"
proof -
  let ?ff = "ffmpegFailsAt ''/app/temp/segments/segment_1.mp4''"
  let ?w0 = "emptyWorld\<lparr>trace := trace emptyWorld @ [NewVideoId ''vid'']\<rparr>"
  have h1: "scenes script2 = [mkScene 1 30] @ mkScene 2 45 # []"
    by (simp add: script2_def)
  have h2: "fst (sceneLoop svc0 ?ff [mkImage 1, mkImage 2] [] 0 [mkScene 1 30] [] ?w0) =
       Inr [''/app/temp/segments/segment_0.mp4'']"
    by code_simp
  have h3: "hasImage [mkImage 1, mkImage 2] (mkScene 2 45)"
    by code_simp
  have h4: "?ff (segmentCommand svc0 (mkScene 2 45) (the (imagePathOf [mkImage 1, mkImage 2] (mkScene 2 45)))
               (audioPathOf [] (mkScene 2 45)) (length [mkScene 1 30])
               (files (snd (sceneLoop svc0 ?ff [mkImage 1, mkImage 2] [] 0 [mkScene 1 30] [] ?w0))))
            (files (snd (sceneLoop svc0 ?ff [mkImage 1, mkImage 2] [] 0 [mkScene 1 30] [] ?w0))) =
       Inl (Error ''ffmpeg exited with code 1'')"
    by (simp add: ffmpegFailsAt_def segmentPath_def svc0_def path_join_def show_nat_Suc0)
  from encoding_failure_aborts [OF h1 h2 h3 h4] h1 h3 show ?thesis by simp
qed

text \<open>
  Claim C2 as stated fails: both scenes have an image and FFmpeg fails on the segment
  of the first one only. The run fails with that error and the second scene is never
  encoded.
\<close>

theorem encoding_failure_counterexample:
  "fst (createVideo svc0 (ffmpegFailsAt ''/app/temp/segments/segment_0.mp4'') ''vid'' script2
          [mkImage 1, mkImage 2] [] emptyWorld) = Inl (Error ''ffmpeg exited with code 1'') \<and>
   trace (snd (createVideo svc0 (ffmpegFailsAt ''/app/temp/segments/segment_0.mp4'') ''vid'' script2
          [mkImage 1, mkImage 2] [] emptyWorld)) =
     [NewVideoId ''vid'',
      Ffmpeg (segmentCommand svc0 (mkScene 1 30) ''/app/temp/images/scene_1.png'' None 0 Map.empty)]"
  by code_simp

text \<open>
  Claim C3, as the code has it. \<open>cleanupSegments\<close> is called on the success path
  only. After a run that ends in success every segment file of the run and the
  concatenation manifest are gone, the output file is there unless its path is one
  of the run's segment paths, and the file at every path other than the run's
  segment paths, the manifest path and the output path is as it was before the
  run; this includes a file left at the segment path of a skipped scene.
\<close>

theorem segments_removed_after_success:
  fixes svc ff videoId script images audioFiles w
  defines "w' \<equiv> snd (createVideo svc ff videoId script images audioFiles w)"
    and "segs \<equiv> orderedSegments svc images (scenes script)"
  assumes "fst (createVideo svc ff videoId script images audioFiles w) = Inr res"
  shows "(\<forall>p\<in>set segs. files w' p = None) \<and>
         files w' (concatFilePath svc) = None \<and>
         (outputPathOf svc videoId \<notin> set segs \<longrightarrow> files w' (outputPathOf svc videoId) \<noteq> None) \<and>
         (\<forall>p. p \<notin> set segs \<and> p \<noteq> concatFilePath svc \<and> p \<noteq> outputPathOf svc videoId
              \<longrightarrow> files w' p = files w p)"
  using assms(3)
proof (cases rule: createVideo_cases [where svc=svc and ff=ff and videoId=videoId
       and script=script and images=images and audioFiles=audioFiles and w=w])
  case (success w1 c sz)
  have keep: "\<And>p. p \<notin> set (orderedSegments svc images (scenes script)) \<Longrightarrow> files w1 p = files w p"
    using sceneLoop_files_segments [OF success(1)] by simp
  show ?thesis
    unfolding w'_def segs_def
    using success(3,4) keep
    by (auto simp: cleanupSegments_files)
qed simp_all

theorem segments_removed_after_success_witness:
  "fst (createVideo svc0 ffmpegOk ''vid'' script2 [mkImage 1] [] staleWorld) =
     Inr \<lparr>res_videoId = ''vid'', res_path = ''/app/output/videos/vid.mp4'',
          res_url = ''/api/videos/stream/vid'', res_size = 3, res_duration = 75\<rparr> \<and>
   files (snd (createVideo svc0 ffmpegOk ''vid'' script2 [mkImage 1] [] staleWorld))
     ''/app/temp/segments/segment_0.mp4'' = None \<and>
   files (snd (createVideo svc0 ffmpegOk ''vid'' script2 [mkImage 1] [] staleWorld))
     (concatFilePath svc0) = None \<and>
   files (snd (createVideo svc0 ffmpegOk ''vid'' script2 [mkImage 1] [] staleWorld))
     (outputPathOf svc0 ''vid'') \<noteq> None \<and>
   files (snd (createVideo svc0 ffmpegOk ''vid'' script2 [mkImage 1] [] staleWorld))
     ''/app/temp/segments/segment_1.mp4'' = Some ''stale''"
proof -
  have h: "fst (createVideo svc0 ffmpegOk ''vid'' script2 [mkImage 1] [] staleWorld) =
     Inr \<lparr>res_videoId = ''vid'', res_path = ''/app/output/videos/vid.mp4'',
          res_url = ''/api/videos/stream/vid'', res_size = 3, res_duration = 75\<rparr>"
    by code_simp
  have a: "''/app/temp/segments/segment_0.mp4'' \<in> set (orderedSegments svc0 [mkImage 1] (scenes script2))"
    by code_simp
  have b: "outputPathOf svc0 ''vid'' \<notin> set (orderedSegments svc0 [mkImage 1] (scenes script2))"
    by code_simp
  have c: "''/app/temp/segments/segment_1.mp4'' \<notin> set (orderedSegments svc0 [mkImage 1] (scenes script2)) \<and>
      ''/app/temp/segments/segment_1.mp4'' \<noteq> concatFilePath svc0 \<and>
      ''/app/temp/segments/segment_1.mp4'' \<noteq> outputPathOf svc0 ''vid''"
    by code_simp
  have d: "files staleWorld ''/app/temp/segments/segment_1.mp4'' = Some ''stale''"
    by (simp add: staleWorld_def)
  from segments_removed_after_success [OF h] a b c d h show ?thesis by simp
qed

text \<open>
  Claim C3 as stated fails: when the concatenation fails after both segments were
  encoded, the run ends in failure with both segment files and the manifest still
  in the temporary directory.
\<close>

theorem segments_left_after_failure_counterexample:
  "fst (createVideo svc0 (ffmpegFailsAt ''/app/output/videos/vid.mp4'') ''vid'' script2
          [mkImage 1, mkImage 2] [] emptyWorld) = Inl (Error ''ffmpeg exited with code 1'') \<and>
   files (snd (createVideo svc0 (ffmpegFailsAt ''/app/output/videos/vid.mp4'') ''vid'' script2
          [mkImage 1, mkImage 2] [] emptyWorld)) ''/app/temp/segments/segment_0.mp4'' = Some ''mp4'' \<and>
   files (snd (createVideo svc0 (ffmpegFailsAt ''/app/output/videos/vid.mp4'') ''vid'' script2
          [mkImage 1, mkImage 2] [] emptyWorld)) ''/app/temp/segments/segment_1.mp4'' = Some ''mp4'' \<and>
   files (snd (createVideo svc0 (ffmpegFailsAt ''/app/output/videos/vid.mp4'') ''vid'' script2
          [mkImage 1, mkImage 2] [] emptyWorld)) ''/app/temp/concat_list.txt'' =
     Some (concatContent [''/app/temp/segments/segment_0.mp4'', ''/app/temp/segments/segment_1.mp4''])"
  by code_simp

text \<open>
  Claim C4, as the code has it. \<open>createSegment\<close> starts one FFmpeg process with the
  command \<open>segmentCommand\<close>. The command carries an audio stream exactly when an audio
  path is given and names an existing file: then the audio file is the second input
  and the options encode it as AAC at 128k and 44100 Hz with \<^verbatim>\<open>-shortest\<close>. Otherwise
  the image is the only input and the option \<^verbatim>\<open>-an\<close> disables audio: no silence is
  synthesised. The video codec, preset, pixel format and filter are the same in
  both cases.
\<close>

theorem segment_audio_only_when_available:
  "trace (snd (createSegment svc ff scene imagePath audioPath index w)) =
     trace w @ [Ffmpeg (segmentCommand svc scene imagePath audioPath index (files w))] \<and>
   (audioDisabled (segmentCommand svc scene imagePath audioPath index fs)
      \<longleftrightarrow> \<not> audioAvailable audioPath fs) \<and>
   (audioAvailable audioPath fs \<longrightarrow>
      map fst (cmd_inputs (segmentCommand svc scene imagePath audioPath index fs)) = [imagePath, the audioPath] \<and>
      {''-c:a aac'', ''-b:a 128k'', ''-ar 44100'', ''-shortest''}
        \<subseteq> set (cmd_outputOptions (segmentCommand svc scene imagePath audioPath index fs))) \<and>
   (\<not> audioAvailable audioPath fs \<longrightarrow>
      map fst (cmd_inputs (segmentCommand svc scene imagePath audioPath index fs)) = [imagePath]) \<and>
   take 3 (cmd_outputOptions (segmentCommand svc scene imagePath audioPath index fs)) =
     [''-c:v libx264'', ''-preset fast'', ''-pix_fmt yuv420p''] \<and>
   video_filter \<in> set (cmd_outputOptions (segmentCommand svc scene imagePath audioPath index fs))"
proof -
  obtain r w' where cs: "createSegment svc ff scene imagePath audioPath index w = (r, w')"
    by (cases "createSegment svc ff scene imagePath audioPath index w")
  from createSegment_result [OF cs] cs
  have "trace (snd (createSegment svc ff scene imagePath audioPath index w)) =
     trace w @ [Ffmpeg (segmentCommand svc scene imagePath audioPath index (files w))]"
    by simp
  moreover have "audioDisabled (segmentCommand svc scene imagePath audioPath index fs)
      \<longleftrightarrow> \<not> audioAvailable audioPath fs"
    by (simp add: audioDisabled_def segmentCommand_def video_filter_def)
  ultimately show ?thesis
    by (simp add: segmentCommand_def)
qed

theorem segment_audio_only_when_available_witness:
  "audioAvailable (Some ''/app/temp/audio/scene_1.mp3'') [''/app/temp/audio/scene_1.mp3'' \<mapsto> ''mp3''] \<and>
   \<not> audioDisabled (segmentCommand svc0 (mkScene 1 30) ''/app/temp/images/scene_1.png''
         (Some ''/app/temp/audio/scene_1.mp3'') 0 [''/app/temp/audio/scene_1.mp3'' \<mapsto> ''mp3'']) \<and>
   \<not> audioAvailable (Some ''/app/temp/audio/scene_1.mp3'') Map.empty \<and>
   audioDisabled (segmentCommand svc0 (mkScene 1 30) ''/app/temp/images/scene_1.png''
         (Some ''/app/temp/audio/scene_1.mp3'') 0 Map.empty)"
proof -
  have a: "audioAvailable (Some ''/app/temp/audio/scene_1.mp3'') [''/app/temp/audio/scene_1.mp3'' \<mapsto> ''mp3'']"
    by (simp add: audioAvailable_def)
  have b: "\<not> audioAvailable (Some ''/app/temp/audio/scene_1.mp3'') Map.empty"
    by (simp add: audioAvailable_def)
  from a b
    segment_audio_only_when_available [of svc0 ffmpegOk "mkScene 1 30" "''/app/temp/images/scene_1.png''"
      "Some ''/app/temp/audio/scene_1.mp3''" 0 emptyWorld "[''/app/temp/audio/scene_1.mp3'' \<mapsto> ''mp3'']"]
    segment_audio_only_when_available [of svc0 ffmpegOk "mkScene 1 30" "''/app/temp/images/scene_1.png''"
      "Some ''/app/temp/audio/scene_1.mp3''" 0 emptyWorld Map.empty]
  show ?thesis by blast
qed

text \<open>
  Claim C4 as stated fails: for a scene without narration audio the command that is
  run has \<^verbatim>\<open>-an\<close> among its output options.
\<close>

theorem segment_audio_counterexample:
  "audioDisabled (segmentCommand svc0 (mkScene 1 30) ''/app/temp/images/scene_1.png'' None 0 Map.empty) \<and>
   trace (snd (createSegment svc0 ffmpegOk (mkScene 1 30) ''/app/temp/images/scene_1.png'' None 0 emptyWorld)) =
     [Ffmpeg (segmentCommand svc0 (mkScene 1 30) ''/app/temp/images/scene_1.png'' None 0 Map.empty)]"
  by (simp add: audioDisabled_def segmentCommand_def audioAvailable_def createSegment_def save_def
        ffmpegOk_def emptyWorld_def)

text \<open>
  Claim C5, as the code has it. Only the output path depends on the video id:
  distinct ids give distinct output paths. Every other path a run writes to is the
  manifest \<open>concat_list.txt\<close> in the service's temporary directory or
  \<open>segments/segment_<index>.mp4\<close> for the position of a scene; neither depends on
  the id, so two runs of the service use the same temporary paths.
\<close>

theorem temp_paths_not_run_scoped:
  "(videoId1 \<noteq> videoId2 \<longrightarrow> outputPathOf svc videoId1 \<noteq> outputPathOf svc videoId2) \<and>
   set (writtenPaths (trace (snd (createVideo svc ff videoId1 script images audioFiles w))))
     \<subseteq> set (writtenPaths (trace w)) \<union>
        insert (outputPathOf svc videoId1)
          (insert (concatFilePath svc) (segmentPath svc ` {0..<length (scenes script)}))"
proof -
  have "videoId1 \<noteq> videoId2 \<Longrightarrow> outputPathOf svc videoId1 \<noteq> outputPathOf svc videoId2"
    by (simp add: outputPathOf_def path_join_def)
  moreover have "p \<in> set (writtenPaths (trace (snd (createVideo svc ff videoId1 script images audioFiles w)))) \<Longrightarrow>
     p \<in> set (writtenPaths (trace w)) \<union>
        insert (outputPathOf svc videoId1)
          (insert (concatFilePath svc) (segmentPath svc ` {0..<length (scenes script)}))" for p
    by (auto simp: writtenPaths_set concatCommand_def dest!: createVideo_trace)
  ultimately show ?thesis by blast
qed

theorem temp_paths_not_run_scoped_witness:
  "''a'' \<noteq> ''b'' \<and> outputPathOf svc0 ''a'' \<noteq> outputPathOf svc0 ''b'' \<and>
   set (writtenPaths (trace (snd (createVideo svc0 ffmpegOk ''a'' script2 [mkImage 1] [] emptyWorld))))
     \<subseteq> insert (outputPathOf svc0 ''a'')
          (insert (concatFilePath svc0) (segmentPath svc0 ` {0..<length (scenes script2)}))"
  using temp_paths_not_run_scoped [of "''a''" "''b''" svc0 ffmpegOk script2 "[mkImage 1]" "[]" emptyWorld]
  by (simp add: emptyWorld_def)

text \<open>
  Claim C5 as stated fails: the runs with the ids \<open>a\<close> and \<open>b\<close> both write the first
  segment file and the manifest at the same paths.
\<close>

theorem temp_paths_counterexample:
  "''a'' \<noteq> ''b'' \<and>
   ''/app/temp/segments/segment_0.mp4''
     \<in> set (writtenPaths (trace (snd (createVideo svc0 ffmpegOk ''a'' script2 [mkImage 1] [] emptyWorld)))) \<and>
   ''/app/temp/segments/segment_0.mp4''
     \<in> set (writtenPaths (trace (snd (createVideo svc0 ffmpegOk ''b'' script2 [mkImage 1] [] emptyWorld)))) \<and>
   ''/app/temp/concat_list.txt''
     \<in> set (writtenPaths (trace (snd (createVideo svc0 ffmpegOk ''a'' script2 [mkImage 1] [] emptyWorld)))) \<and>
   ''/app/temp/concat_list.txt''
     \<in> set (writtenPaths (trace (snd (createVideo svc0 ffmpegOk ''b'' script2 [mkImage 1] [] emptyWorld))))"
  by code_simp

text \<open>
  Claim C6, as the code has it. When every scene is skipped for a missing image (or
  there is no scene), \<open>createVideo\<close> fails with \<open>No valid segments created\<close>; all it has
  done is to take the video id and to warn once per scene, so no FFmpeg process was
  started and no file was written. In every run, the concatenating FFmpeg process is
  started only after the scene loop has returned a non-empty list of segments. (A
  scene that cannot be encoded ends the run with the encoder's error instead.)
\<close>

theorem all_scenes_skipped_fails:
  "((\<forall>s\<in>set (scenes script). \<not> hasImage images s) \<longrightarrow>
      createVideo svc ff videoId script images audioFiles w =
        (Inl (Error ''No valid segments created''),
         w\<lparr>trace := trace w @ NewVideoId videoId # map (\<lambda>s. SkipWarning (scene_id s)) (scenes script)\<rparr>)) \<and>
   (Ffmpeg (concatCommand svc (outputPathOf svc videoId))
        \<in> set (trace (snd (createVideo svc ff videoId script images audioFiles w))) \<longrightarrow>
      Ffmpeg (concatCommand svc (outputPathOf svc videoId)) \<in> set (trace w) \<or>
      orderedSegments svc images (scenes script) \<noteq> [] \<and>
      fst (sceneLoop svc ff images audioFiles 0 (scenes script) []
             (w\<lparr>trace := trace w @ [NewVideoId videoId]\<rparr>)) =
        Inr (orderedSegments svc images (scenes script)))"
proof -
  have "\<forall>s\<in>set (scenes script). \<not> hasImage images s \<Longrightarrow>
      createVideo svc ff videoId script images audioFiles w =
        (Inl (Error ''No valid segments created''),
         w\<lparr>trace := trace w @ NewVideoId videoId # map (\<lambda>s. SkipWarning (scene_id s)) (scenes script)\<rparr>)"
    by (simp add: createVideo_def sceneLoop_skip_all)
  moreover have "Ffmpeg (concatCommand svc (outputPathOf svc videoId))
        \<in> set (trace (snd (createVideo svc ff videoId script images audioFiles w))) \<Longrightarrow>
      Ffmpeg (concatCommand svc (outputPathOf svc videoId)) \<in> set (trace w) \<or>
      orderedSegments svc images (scenes script) \<noteq> [] \<and>
      fst (sceneLoop svc ff images audioFiles 0 (scenes script) []
             (w\<lparr>trace := trace w @ [NewVideoId videoId]\<rparr>)) =
        Inr (orderedSegments svc images (scenes script))"
    by (drule createVideo_trace) (auto simp: concatCommand_def)
  ultimately show ?thesis by blast
qed

theorem all_scenes_skipped_fails_witness:
  "createVideo svc0 ffmpegOk ''vid'' script2 [] [] emptyWorld =
     (Inl (Error ''No valid segments created''),
      emptyWorld\<lparr>trace := trace emptyWorld @
         NewVideoId ''vid'' # map (\<lambda>s. SkipWarning (scene_id s)) (scenes script2)\<rparr>) \<and>
   orderedSegments svc0 [mkImage 1] (scenes script2) \<noteq> []"
proof -
  have h1: "\<forall>s\<in>set (scenes script2). \<not> hasImage [] s"
    by code_simp
  have h2: "Ffmpeg (concatCommand svc0 (outputPathOf svc0 ''vid''))
        \<in> set (trace (snd (createVideo svc0 ffmpegOk ''vid'' script2 [mkImage 1] [] emptyWorld)))"
    by code_simp
  have h3: "Ffmpeg (concatCommand svc0 (outputPathOf svc0 ''vid'')) \<notin> set (trace emptyWorld)"
    by (simp add: emptyWorld_def)
  from all_scenes_skipped_fails [of script2 "[]" svc0 ffmpegOk "''vid''" "[]" emptyWorld] h1
    all_scenes_skipped_fails [of script2 "[mkImage 1]" svc0 ffmpegOk "''vid''" "[]" emptyWorld] h2 h3
  show ?thesis by blast
qed

text \<open>
  Claim C6 as stated fails: the only scene has an image and cannot be encoded, so no
  scene yields a segment, and the error is the encoder's.
\<close>

theorem all_scenes_skipped_counterexample:
  "ffmpegFailsAt ''/app/temp/segments/segment_0.mp4''
     (segmentCommand svc0 (mkScene 1 30) ''/app/temp/images/scene_1.png'' None 0 Map.empty) Map.empty =
     Inl (Error ''ffmpeg exited with code 1'') \<and>
   fst (createVideo svc0 (ffmpegFailsAt ''/app/temp/segments/segment_0.mp4'') ''vid'' script1
          [mkImage 1] [] emptyWorld) = Inl (Error ''ffmpeg exited with code 1'') \<and>
   trace (snd (createVideo svc0 (ffmpegFailsAt ''/app/temp/segments/segment_0.mp4'') ''vid'' script1
          [mkImage 1] [] emptyWorld)) =
     [NewVideoId ''vid'',
      Ffmpeg (segmentCommand svc0 (mkScene 1 30) ''/app/temp/images/scene_1.png'' None 0 Map.empty)]"
  by code_simp

text \<open>
  Claim C7. When the scene loop of a run returns, the \<open>segments\<close> array it hands to
  \<open>concatenateSegments\<close> is the list of the segment paths of the scenes with a
  resolvable image, by ascending position in the script: no position is left out and
  none is moved. When that list is not empty, the run next writes the manifest and
  starts the concatenating FFmpeg process, whose only input is the manifest. The
  manifest, and every manifest a run writes, is the text with one line
  \<^verbatim>\<open>file '<path>'\<close> per segment of that list, in the order of the list, the lines
  separated by a newline.
\<close>

theorem segments_in_scene_order:
  fixes svc ff videoId script images audioFiles w
  defines "w0 \<equiv> w\<lparr>trace := trace w @ [NewVideoId videoId]\<rparr>"
    and "ordered \<equiv> map (segmentPath svc)
           (filter (\<lambda>j. hasImage images (scenes script ! j)) [0..<length (scenes script)])"
  defines "manifest \<equiv>
     (case ordered of [] \<Rightarrow> []
      | s # rest \<Rightarrow> (''file '' @ [CHR 0x27] @ s @ [CHR 0x27]) @
          concat (map (\<lambda>t. [CHR 0x0A] @ ''file '' @ [CHR 0x27] @ t @ [CHR 0x27]) rest))"
  shows
  "(fst (sceneLoop svc ff images audioFiles 0 (scenes script) [] w0) = Inr segments \<longrightarrow>
      segments = ordered) \<and>
   (WriteFile (concatFilePath svc) c
        \<in> set (trace (snd (createVideo svc ff videoId script images audioFiles w))) \<longrightarrow>
      WriteFile (concatFilePath svc) c \<in> set (trace w) \<or> c = manifest) \<and>
   (fst (sceneLoop svc ff images audioFiles 0 (scenes script) [] w0) = Inr segments \<and> segments \<noteq> [] \<longrightarrow>
      (\<exists>rest. trace (snd (createVideo svc ff videoId script images audioFiles w)) =
                trace (snd (sceneLoop svc ff images audioFiles 0 (scenes script) [] w0)) @
                WriteFile (concatFilePath svc) manifest #
                Ffmpeg (concatCommand svc (outputPathOf svc videoId)) # rest)) \<and>
   map fst (cmd_inputs (concatCommand svc (outputPathOf svc videoId))) = [concatFilePath svc]"
proof -
  have man: "manifest = concatContent (orderedSegments svc images (scenes script))"
    unfolding manifest_def ordered_def orderedSegments_def [symmetric]
    by (simp only: concatContent_explicit)
  have ord: "ordered = orderedSegments svc images (scenes script)"
    by (simp add: ordered_def orderedSegments_def)
  have 1: "fst (sceneLoop svc ff images audioFiles 0 (scenes script) [] w0) = Inr segments \<Longrightarrow>
      segments = ordered"
    unfolding ord
    by (cases "sceneLoop svc ff images audioFiles 0 (scenes script) [] w0")
       (auto simp: w0_def dest: sceneLoop_ordered)
  have 2: "WriteFile (concatFilePath svc) c
        \<in> set (trace (snd (createVideo svc ff videoId script images audioFiles w))) \<Longrightarrow>
      WriteFile (concatFilePath svc) c \<in> set (trace w) \<or> c = manifest"
    unfolding man by (drule createVideo_trace) auto
  have 3: "\<exists>rest. trace (snd (createVideo svc ff videoId script images audioFiles w)) =
                trace (snd (sceneLoop svc ff images audioFiles 0 (scenes script) [] w0)) @
                WriteFile (concatFilePath svc) manifest #
                Ffmpeg (concatCommand svc (outputPathOf svc videoId)) # rest"
    if "fst (sceneLoop svc ff images audioFiles 0 (scenes script) [] w0) = Inr segments"
      and "segments \<noteq> []"
  proof -
    from that 1 ord have ne: "orderedSegments svc images (scenes script) \<noteq> []" by simp
    have "\<exists>rest. trace (snd (createVideo svc ff videoId script images audioFiles w)) =
                trace (snd (sceneLoop svc ff images audioFiles 0 (scenes script) []
                              (w\<lparr>trace := trace w @ [NewVideoId videoId]\<rparr>))) @
                WriteFile (concatFilePath svc) (concatContent (orderedSegments svc images (scenes script))) #
                Ffmpeg (concatCommand svc (outputPathOf svc videoId)) # rest"
    proof (cases rule: createVideo_cases [where svc=svc and ff=ff and videoId=videoId
       and script=script and images=images and audioFiles=audioFiles and w=w])
      case (encode_failed err w1)
      with that(1) show ?thesis by (simp add: w0_def)
    next
      case (no_segments w1)
      with ne show ?thesis by simp
    next
      case (concat_failed w1 err)
      then show ?thesis by simp
    next
      case (stat_failed w1 c err)
      then show ?thesis by simp
    next
      case (success w1 c sz)
      then show ?thesis by (simp add: cleanupSegments_trace)
    qed
    then show ?thesis
      unfolding man w0_def .
  qed
  have 4: "map fst (cmd_inputs (concatCommand svc (outputPathOf svc videoId))) = [concatFilePath svc]"
    by (simp add: concatCommand_def)
  from 1 2 3 4 show ?thesis by blast
qed

theorem segments_in_scene_order_witness:
  "fst (sceneLoop svc0 ffmpegOk [mkImage 1, mkImage 3] [] 0 (scenes script3) []
           (emptyWorld\<lparr>trace := trace emptyWorld @ [NewVideoId ''vid'']\<rparr>)) =
     Inr [''/app/temp/segments/segment_0.mp4'', ''/app/temp/segments/segment_2.mp4''] \<and>
   WriteFile (concatFilePath svc0)
     (''file '' @ [CHR 0x27] @ ''/app/temp/segments/segment_0.mp4'' @ [CHR 0x27, CHR 0x0A] @
      ''file '' @ [CHR 0x27] @ ''/app/temp/segments/segment_2.mp4'' @ [CHR 0x27])
     \<in> set (trace (snd (createVideo svc0 ffmpegOk ''vid'' script3 [mkImage 1, mkImage 3] [] emptyWorld)))"
proof -
  let ?segs = "[''/app/temp/segments/segment_0.mp4'', ''/app/temp/segments/segment_2.mp4'']"
  let ?ordered = "map (segmentPath svc0)
           (filter (\<lambda>j. hasImage [mkImage 1, mkImage 3] (scenes script3 ! j)) [0..<length (scenes script3)])"
  have h1: "fst (sceneLoop svc0 ffmpegOk [mkImage 1, mkImage 3] [] 0 (scenes script3) []
           (emptyWorld\<lparr>trace := trace emptyWorld @ [NewVideoId ''vid'']\<rparr>)) = Inr ?segs"
    by code_simp
  have h2: "?segs \<noteq> []"
    by simp
  have m: "(case ?ordered of [] \<Rightarrow> []
      | s # rest \<Rightarrow> (''file '' @ [CHR 0x27] @ s @ [CHR 0x27]) @
          concat (map (\<lambda>t. [CHR 0x0A] @ ''file '' @ [CHR 0x27] @ t @ [CHR 0x27]) rest)) =
     ''file '' @ [CHR 0x27] @ ''/app/temp/segments/segment_0.mp4'' @ [CHR 0x27, CHR 0x0A] @
      ''file '' @ [CHR 0x27] @ ''/app/temp/segments/segment_2.mp4'' @ [CHR 0x27]"
    by code_simp
  note t = segments_in_scene_order [where svc=svc0 and ff=ffmpegOk and images="[mkImage 1, mkImage 3]"
      and audioFiles="[]" and script=script3 and w=emptyWorld and videoId="''vid''" and segments="?segs"]
  from t h1 h2 obtain rest where
    "trace (snd (createVideo svc0 ffmpegOk ''vid'' script3 [mkImage 1, mkImage 3] [] emptyWorld)) =
       trace (snd (sceneLoop svc0 ffmpegOk [mkImage 1, mkImage 3] [] 0 (scenes script3) []
           (emptyWorld\<lparr>trace := trace emptyWorld @ [NewVideoId ''vid'']\<rparr>))) @
       WriteFile (concatFilePath svc0)
         (case ?ordered of [] \<Rightarrow> []
          | s # rest \<Rightarrow> (''file '' @ [CHR 0x27] @ s @ [CHR 0x27]) @
              concat (map (\<lambda>t. [CHR 0x0A] @ ''file '' @ [CHR 0x27] @ t @ [CHR 0x27]) rest)) #
       Ffmpeg (concatCommand svc0 (outputPathOf svc0 ''vid'')) # rest"
    by blast
  then have "WriteFile (concatFilePath svc0)
         (case ?ordered of [] \<Rightarrow> []
          | s # rest \<Rightarrow> (''file '' @ [CHR 0x27] @ s @ [CHR 0x27]) @
              concat (map (\<lambda>t. [CHR 0x0A] @ ''file '' @ [CHR 0x27] @ t @ [CHR 0x27]) rest))
     \<in> set (trace (snd (createVideo svc0 ffmpegOk ''vid'' script3 [mkImage 1, mkImage 3] [] emptyWorld)))"
    by simp
  with h1 show ?thesis
    by (simp only: m)
qed

text \<open>
  Claim C8, as the code has it. \<open>createVideo\<close> has no validation step. On a script with
  an empty scene list it first takes a video id, then fails with the error
  \<open>No valid segments created\<close>, the same error as for a script whose scenes are all
  skipped. No FFmpeg process is started and no file is written or removed: the world
  is unchanged but for the id in the trace.
\<close>

theorem empty_script_fails_after_id:
  assumes "scenes script = []"
  shows "createVideo svc ff videoId script images audioFiles w =
     (Inl (Error ''No valid segments created''), w\<lparr>trace := trace w @ [NewVideoId videoId]\<rparr>)"
  using assms by (simp add: createVideo_def)

theorem empty_script_fails_after_id_witness:
  "scenes \<lparr>scenes = [], totalDuration = 0\<rparr> = [] \<and>
   createVideo svc0 ffmpegOk ''vid'' \<lparr>scenes = [], totalDuration = 0\<rparr> [] [] emptyWorld =
     (Inl (Error ''No valid segments created''),
      emptyWorld\<lparr>trace := trace emptyWorld @ [NewVideoId ''vid'']\<rparr>)"
  using empty_script_fails_after_id [of "\<lparr>scenes = [], totalDuration = 0\<rparr>" svc0 ffmpegOk "''vid''" "[]" "[]" emptyWorld]
  by simp

text \<open>
  Claim C8 as stated fails: on the empty script the error is the one of the
  no-segments check, and the video id has been allocated.
\<close>

theorem empty_script_counterexample:
  "fst (createVideo svc0 ffmpegOk ''vid'' \<lparr>scenes = [], totalDuration = 0\<rparr> [] [] emptyWorld) =
     Inl (Error ''No valid segments created'') \<and>
   trace (snd (createVideo svc0 ffmpegOk ''vid'' \<lparr>scenes = [], totalDuration = 0\<rparr> [] [] emptyWorld)) =
     [NewVideoId ''vid'']"
  by code_simp

text \<open>
  Claim C9. Asset resolution matches a scene to its image and to its audio record by
  equality of \<open>sceneId\<close> with the scene's \<open>id\<close>. The result is the first record of
  the list that matches, also when several records share the \<open>sceneId\<close>; when none
  matches the result is \<open>undefined\<close> (\<open>None\<close>) and no error is raised. \<open>findImage\<close>
  and \<open>findAudio\<close> are functions of the list and the scene alone: they neither read
  nor change the world.
\<close>

theorem asset_resolution_first_match:
  "(findImage images scene = None \<longleftrightarrow> (\<forall>img\<in>set images. img_sceneId img \<noteq> scene_id scene)) \<and>
   (findImage images scene = Some img \<longleftrightarrow>
      (\<exists>i<length images. images ! i = img \<and> img_sceneId img = scene_id scene \<and>
         (\<forall>j<i. img_sceneId (images ! j) \<noteq> scene_id scene))) \<and>
   (findAudio audioFiles scene = None \<longleftrightarrow> (\<forall>aud\<in>set audioFiles. aud_sceneId aud \<noteq> scene_id scene)) \<and>
   (findAudio audioFiles scene = Some aud \<longleftrightarrow>
      (\<exists>i<length audioFiles. audioFiles ! i = aud \<and> aud_sceneId aud = scene_id scene \<and>
         (\<forall>j<i. aud_sceneId (audioFiles ! j) \<noteq> scene_id scene)))"
  unfolding findImage_def findAudio_def find_None_iff find_Some_iff
  by blast

theorem asset_resolution_first_match_witness:
  "findImage [\<lparr>img_sceneId = 1, img_path = Some ''a.png''\<rparr>, \<lparr>img_sceneId = 1, img_path = Some ''b.png''\<rparr>]
     (mkScene 1 30) = Some \<lparr>img_sceneId = 1, img_path = Some ''a.png''\<rparr> \<and>
   findAudio [mkAudio 2] (mkScene 1 30) = None"
proof -
  let ?a = "\<lparr>img_sceneId = 1, img_path = Some ''a.png''\<rparr>"
  let ?imgs = "[?a, \<lparr>img_sceneId = 1, img_path = Some ''b.png''\<rparr>]"
  have h: "\<exists>i<length ?imgs. ?imgs ! i = ?a \<and> img_sceneId ?a = scene_id (mkScene 1 30) \<and>
         (\<forall>j<i. img_sceneId (?imgs ! j) \<noteq> scene_id (mkScene 1 30))"
    by (rule exI [of _ 0]) (simp add: mkScene_def)
  have g: "\<forall>aud\<in>set [mkAudio 2]. aud_sceneId aud \<noteq> scene_id (mkScene 1 30)"
    by (simp add: mkScene_def mkAudio_def)
  from asset_resolution_first_match [of ?imgs "mkScene 1 30" ?a "[mkAudio 2]" "mkAudio 2"] h g
  show ?thesis by blast
qed



end
